theory Spec2Isabelle
  imports Main "HOL-Library.Word" "HOL-Library.Sublist"
begin

section \<open>The procedure table of the GLES backend (proc_table_gles.h)\<close>

text \<open>
  A shallow embedding of \<^verbatim>\<open>impeller/renderer/backend/gles/proc_table_gles.h\<close>.
  A C pointer is an \<open>option\<close>: \<open>None\<close> is \<^verbatim>\<open>nullptr\<close>. A driver function is a
  function on the driver's state \<open>'d\<close>. The process state (\<open>world\<close>) holds the driver's
  state and, as ghost state, the list of calls made through function pointers, in the
  order they were made. An operation ends in one of three ways (\<open>outcome\<close>): it
  returns, the process is terminated with a fatal diagnostic, or it does something
  C++ leaves undefined.
\<close>

subsection \<open>Driver values\<close>

type_synonym GLenum = "32 word"

text \<open>The constants of the OpenGL ES headers (\<^verbatim>\<open>gles.h\<close> includes them).\<close>

definition GL_NO_ERROR :: GLenum where
  "GL_NO_ERROR = 0"



text \<open>\<^verbatim>\<open>typedef GLenum (*PFNGLGETERRORPROC)(void)\<close>: reads the driver's error state.\<close>

type_synonym 'd PFNGLGETERRORPROC = "'d \<Rightarrow> GLenum \<times> 'd"

subsection \<open>Process state and outcomes\<close>

datatype event = Function_invoked | Error_fn_invoked

record 'd world =
  driver :: 'd
  invocations :: "event list"

datatype fault = Null_function_called | Null_name_streamed

datatype ('r, 's) outcome =
    Returned 'r 's
  | Fatal string 's
  | Undefined fault 's

fun state_of :: "('r, 's) outcome \<Rightarrow> 's" where
  "state_of (Returned r s) = s"
| "state_of (Fatal m s) = s"
| "state_of (Undefined u s) = s"

text \<open>A call through a function pointer: the driver's state changes, the call is logged.\<close>

definition invoke :: "event \<Rightarrow> ('d \<Rightarrow> 'r \<times> 'd) \<Rightarrow> 'd world \<Rightarrow> 'r \<times> 'd world" where
  "invoke ev f s =
     (let (r, d) = f (driver s)
      in (r, s\<lparr>driver := d, invocations := invocations s @ [ev]\<rparr>))"

subsection \<open>Streaming an unsigned integer\<close>

text \<open>\<^verbatim>\<open>stream << error\<close> on an unsigned integer writes its decimal digits.\<close>

definition digit :: "nat \<Rightarrow> char" where
  "digit d = ''0123456789'' ! d"

function decimal :: "nat \<Rightarrow> string" where
  "decimal n = (if n < 10 then [digit n] else decimal (n div 10) @ [digit (n mod 10)])"
  by pat_completeness auto
termination
  by (relation "measure id") auto

declare decimal.simps [simp del]

subsection \<open>AutoErrorCheck\<close>

record 'd AutoErrorCheck =
  error_fn :: "'d PFNGLGETERRORPROC option"
  name :: "string option"

text \<open>
  Modelled from the spec: \<^verbatim>\<open>FML_CHECK\<close>, a macro of \<^verbatim>\<open>flutter/fml/logging.h\<close>,
  which is not among the sources. When the condition fails the process is terminated
  with a fatal diagnostic that carries the text streamed into the check; the text is
  built only then. \<open>streamed\<close> is that text, \<open>None\<close> when building it streams a null
  \<^verbatim>\<open>const char*\<close>, which C++ leaves undefined.
\<close>

definition FML_CHECK :: "bool \<Rightarrow> string option \<Rightarrow> 's \<Rightarrow> (unit, 's) outcome" where
  "FML_CHECK condition streamed s =
     (if condition then Returned () s
      else case streamed of
             None \<Rightarrow> Undefined Null_name_streamed s
           | Some m \<Rightarrow> Fatal m s)"

text \<open>
  The text of lines 31 and 32. \<open>to_string\<close> is \<^verbatim>\<open>GLErrorToString\<close>, which the header
  only declares.
\<close>

definition diagnostic :: "(GLenum \<Rightarrow> string) \<Rightarrow> GLenum \<Rightarrow> string \<Rightarrow> string" where
  "diagnostic to_string error n =
     ''GL Error '' @ to_string error @ ''('' @ decimal (unat error) @ '')'' @
     '' encountered on call to '' @ n"

text \<open>The destructor \<^verbatim>\<open>~AutoErrorCheck\<close>.\<close>

definition AutoErrorCheck_exit ::
  "(GLenum \<Rightarrow> string) \<Rightarrow> 'd AutoErrorCheck \<Rightarrow> 'd world \<Rightarrow> (unit, 'd world) outcome" where
  "AutoErrorCheck_exit to_string self s =
     (case AutoErrorCheck.error_fn self of
        None \<Rightarrow> Returned () s
      | Some f \<Rightarrow>
          (let (error, s') = invoke Error_fn_invoked f s
           in FML_CHECK (error = GL_NO_ERROR)
                (map_option (diagnostic to_string error) (AutoErrorCheck.name self)) s'))"

subsection \<open>GLProc\<close>

record ('f, 'd) GLProc =
  name :: "string option"
  "function" :: "'f option"
  error_fn :: "'d PFNGLGETERRORPROC option"

text \<open>
  \<^verbatim>\<open>operator()\<close>: the guard is constructed, the function pointer is called with the
  arguments, and the guard's destructor runs once the result has been computed.
\<close>

definition call ::
  "(GLenum \<Rightarrow> string) \<Rightarrow> ('a \<Rightarrow> 'd \<Rightarrow> 'r \<times> 'd, 'd) GLProc \<Rightarrow> 'a \<Rightarrow> 'd world \<Rightarrow>
     ('r, 'd world) outcome" where
  "call to_string p args s =
     (let error = \<lparr>AutoErrorCheck.error_fn = error_fn p, name = name p\<rparr>
      in case function p of
           None \<Rightarrow> Undefined Null_function_called s
         | Some f \<Rightarrow>
             (let (r, s') = invoke Function_invoked (f args) s
              in case AutoErrorCheck_exit to_string error s' of
                   Returned u s'' \<Rightarrow> Returned r s''
                 | Fatal m s'' \<Rightarrow> Fatal m s''
                 | Undefined u s'' \<Rightarrow> Undefined u s''))"

definition IsAvailable :: "('f, 'd) GLProc \<Rightarrow> bool" where
  "IsAvailable p = (function p \<noteq> None)"

definition Reset :: "('f, 'd) GLProc \<Rightarrow> ('f, 'd) GLProc" where
  "Reset p = p\<lparr>name := None, function := None, error_fn := None\<rparr>"

subsection \<open>The declared procedures\<close>

text \<open>The lists of the macros \<^verbatim>\<open>FOR_EACH_IMPELLER_PROC\<close> and \<^verbatim>\<open>FOR_EACH_IMPELLER_EXT_PROC\<close>.\<close>

definition FOR_EACH_IMPELLER_PROC :: "string list" where
  "FOR_EACH_IMPELLER_PROC =
    [''ActiveTexture'', ''AttachShader'', ''BindAttribLocation'', ''BindBuffer'',
     ''BindTexture'', ''BlendEquationSeparate'', ''BlendFuncSeparate'', ''BufferData'',
     ''CheckFramebufferStatus'', ''Clear'', ''ClearColor'', ''ClearDepthf'',
     ''ClearStencil'', ''ColorMask'', ''CompileShader'', ''CreateProgram'',
     ''CreateShader'', ''CullFace'', ''DeleteBuffers'', ''DeleteProgram'',
     ''DeleteShader'', ''DeleteTextures'', ''DepthFunc'', ''DepthMask'', ''DepthRangef'',
     ''DetachShader'', ''Disable'', ''DisableVertexAttribArray'', ''DrawElements'',
     ''Enable'', ''EnableVertexAttribArray'', ''FrontFace'', ''GenBuffers'',
     ''GenTextures'', ''GetActiveUniform'', ''GetBooleanv'', ''GetFloatv'',
     ''GetFramebufferAttachmentParameteriv'', ''GetIntegerv'', ''GetProgramiv'',
     ''GetShaderInfoLog'', ''GetShaderiv'', ''GetString'', ''GetUniformLocation'',
     ''IsFramebuffer'', ''IsProgram'', ''LinkProgram'', ''Scissor'', ''ShaderBinary'',
     ''ShaderSource'', ''StencilFuncSeparate'', ''StencilMaskSeparate'',
     ''StencilOpSeparate'', ''TexImage2D'', ''TexParameteri'', ''Uniform1fv'',
     ''Uniform1i'', ''Uniform2fv'', ''Uniform4fv'', ''UniformMatrix4fv'', ''UseProgram'',
     ''VertexAttribPointer'', ''Viewport'']"

definition FOR_EACH_IMPELLER_EXT_PROC :: "string list" where
  "FOR_EACH_IMPELLER_EXT_PROC =
    [''PushDebugGroupKHR'', ''PopDebugGroupKHR'', ''ObjectLabelKHR'']"

datatype DebugResourceType = kTexture | kBuffer | kProgram | kShader

subsection \<open>ProcTableGLES\<close>

text \<open>
  \<^verbatim>\<open>IMPELLER_PROC(name)\<close> declares the member \<^verbatim>\<open>name\<close> with the initialiser
  \<^verbatim>\<open>{"gl" #name, nullptr}\<close>; \<^verbatim>\<open>error_fn\<close> keeps its default, \<^verbatim>\<open>nullptr\<close>.
\<close>

definition IMPELLER_PROC :: "string \<Rightarrow> ('f, 'd) GLProc" where
  "IMPELLER_PROC n = \<lparr>name = Some (''gl'' @ n), function = None, error_fn = None\<rparr>"

text \<open>
  Modelled from the spec: the Driver Description (\<^verbatim>\<open>GLDescription\<close> of
  \<^verbatim>\<open>gl_description.h\<close>, which is not among the sources), as far as the table consults it:
  the capability predicate for debug labeling.
\<close>

record GLDescription =
  HasDebugExtension :: bool

text \<open>
  The members of the class. \<open>procs\<close> holds the procedure members by their member name, in
  the order of declaration; \<open>is_valid\<close> and \<open>description\<close> are \<^verbatim>\<open>is_valid_\<close> and
  \<^verbatim>\<open>description_\<close>.
\<close>

record ('f, 'd) ProcTableGLES =
  procs :: "(string \<times> ('f, 'd) GLProc) list"
  is_valid :: bool
  description :: "GLDescription option"

definition declare_procs :: "string list \<Rightarrow> (string \<times> ('f, 'd) GLProc) list" where
  "declare_procs names = map (\<lambda>n. (n, IMPELLER_PROC n)) names"

text \<open>The members as their declarations initialise them, before a constructor body runs.\<close>

definition declared :: "('f, 'd) ProcTableGLES" where
  "declared =
     \<lparr>procs = declare_procs FOR_EACH_IMPELLER_PROC @ declare_procs FOR_EACH_IMPELLER_EXT_PROC,
      is_valid = False,
      description = None\<rparr>"

definition proc :: "('f, 'd) ProcTableGLES \<Rightarrow> string \<Rightarrow> ('f, 'd) GLProc option" where
  "proc table n = map_of (procs table) n"

subsection \<open>Construction and validity\<close>

type_synonym 'f Resolver = "string \<Rightarrow> 'f option"

text \<open>
  Modelled from the spec: the constructor \<^verbatim>\<open>ProcTableGLES(Resolver)\<close> and \<^verbatim>\<open>IsValid()\<close>,
  which the header declares and \<^verbatim>\<open>proc_table_gles.cc\<close>, not among the sources, defines.
  The construction protocol of the spec: for every declared core and extension
  procedure the resolver is called with the slot's name (the declared name with the
  driver's prefix) and its answer is stored as the slot's function pointer; the
  error-query bindings of the extension slots stay unset; the validity flag is true iff
  every core slot resolved; a valid table gets its Driver Description. The spec says
  neither which error-query function the core slots are bound to nor how the
  description is computed from the resolved slots: both are parameters here.
\<close>

definition resolve :: "'f Resolver \<Rightarrow> ('f, 'd) GLProc \<Rightarrow> ('f, 'd) GLProc" where
  "resolve resolver p =
     (case name p of
        None \<Rightarrow> p
      | Some n \<Rightarrow> p\<lparr>function := resolver n\<rparr>)"

definition ProcTableGLES ::
  "'f Resolver \<Rightarrow> 'd PFNGLGETERRORPROC option \<Rightarrow>
   ((string \<times> ('f, 'd) GLProc) list \<Rightarrow> GLDescription) \<Rightarrow> ('f, 'd) ProcTableGLES" where
  "ProcTableGLES resolver core_error_fn describe =
     (let core = map (\<lambda>(n, p). (n, (resolve resolver p)\<lparr>error_fn := core_error_fn\<rparr>))
                   (declare_procs FOR_EACH_IMPELLER_PROC);
          ext = map (\<lambda>(n, p). (n, resolve resolver p))
                  (declare_procs FOR_EACH_IMPELLER_EXT_PROC);
          valid = list_all (\<lambda>(n, p). IsAvailable p) core
      in \<lparr>procs = core @ ext,
          is_valid = valid,
          description = (if valid then Some (describe (core @ ext)) else None)\<rparr>)"

definition IsValid :: "('f, 'd) ProcTableGLES \<Rightarrow> bool" where
  "IsValid table = is_valid table"

subsection \<open>Operations on the table\<close>

text \<open>
  The procedures of the table have different C types. For the operations below they
  take a list of driver values and return one.
\<close>

datatype gl_value = GL_void | GL_enum GLenum | GL_int "32 word" | GL_string string

type_synonym 'd gl_function = "gl_value list \<Rightarrow> 'd \<Rightarrow> gl_value \<times> 'd"


text \<open>
  Modelled from the spec: \<^verbatim>\<open>SetDebugLabel\<close>, declared in the header and defined in
  \<^verbatim>\<open>proc_table_gles.cc\<close>, which is not among the sources. When the labeling slot is
  unresolved, or the Driver Description does not report the capability (a table without
  a description reports none), the call does nothing; otherwise the label is attached
  through the labeling slot. \<open>identifier\<close> gives the driver's name of a resource type,
  which the spec does not fix.
\<close>

definition SetDebugLabel ::
  "(GLenum \<Rightarrow> string) \<Rightarrow> (DebugResourceType \<Rightarrow> GLenum) \<Rightarrow>
   ('d gl_function, 'd) ProcTableGLES \<Rightarrow> DebugResourceType \<Rightarrow> 32 word \<Rightarrow> string \<Rightarrow>
   'd world \<Rightarrow> (unit, 'd world) outcome" where
  "SetDebugLabel to_string identifier table type handle label s =
     (case proc table ''ObjectLabelKHR'' of
        None \<Rightarrow> Returned () s
      | Some p \<Rightarrow>
          if \<not> IsAvailable p then Returned () s
          else (case description table of
                  None \<Rightarrow> Returned () s
                | Some d \<Rightarrow>
                    if \<not> HasDebugExtension d then Returned () s
                    else (case call to_string p
                                 [GL_enum (identifier type), GL_int handle,
                                  GL_int (of_nat (length label)), GL_string label] s of
                            Returned r s' \<Rightarrow> Returned () s'
                          | Fatal m s' \<Rightarrow> Fatal m s'
                          | Undefined u s' \<Rightarrow> Undefined u s')))"

section \<open>Auxiliary facts\<close>

lemma invoke_eq:
  "f (driver s) = (r, d) \<Longrightarrow>
   invoke ev f s = (r, s\<lparr>driver := d, invocations := invocations s @ [ev]\<rparr>)"
  by (simp add: invoke_def)

lemma diagnostic_contains:
  "sublist (to_string error) (diagnostic to_string error n) \<and>
   sublist (decimal (unat error)) (diagnostic to_string error n) \<and>
   suffix n (diagnostic to_string error n)"
proof (intro conjI)
  have "diagnostic to_string error n =
        ''GL Error '' @ to_string error @ (''('' @ decimal (unat error) @ '')'' @ '' encountered on call to '' @ n)"
    by (simp add: diagnostic_def)
  then show "sublist (to_string error) (diagnostic to_string error n)"
    unfolding sublist_def by blast
  have "diagnostic to_string error n =
        (''GL Error '' @ to_string error @ ''('') @ decimal (unat error) @ ('')'' @ '' encountered on call to '' @ n)"
    by (simp add: diagnostic_def)
  then show "sublist (decimal (unat error)) (diagnostic to_string error n)"
    unfolding sublist_def by blast
  show "suffix n (diagnostic to_string error n)"
    by (simp add: diagnostic_def suffix_def)
qed

lemma distinct_declared_names:
  "distinct (FOR_EACH_IMPELLER_PROC @ FOR_EACH_IMPELLER_EXT_PROC)"
  by (simp add: FOR_EACH_IMPELLER_PROC_def FOR_EACH_IMPELLER_EXT_PROC_def)

lemma map_of_declare_procs:
  "map_of (declare_procs names) n = (if n \<in> set names then Some (IMPELLER_PROC n) else None)"
  by (simp add: declare_procs_def map_of_map_restrict restrict_map_def)

lemma proc_declared:
  "n \<in> set (FOR_EACH_IMPELLER_PROC @ FOR_EACH_IMPELLER_EXT_PROC) \<Longrightarrow>
   proc declared n = Some (IMPELLER_PROC n)"
  by (auto simp: proc_def declared_def map_of_declare_procs map_add_def)

lemma procs_ProcTableGLES:
  "procs (ProcTableGLES resolver e describe) =
     map (\<lambda>n. (n, \<lparr>name = Some (''gl'' @ n), function = resolver (''gl'' @ n), error_fn = e\<rparr>))
       FOR_EACH_IMPELLER_PROC @
     map (\<lambda>n. (n, \<lparr>name = Some (''gl'' @ n), function = resolver (''gl'' @ n), error_fn = None\<rparr>))
       FOR_EACH_IMPELLER_EXT_PROC"
  by (simp add: ProcTableGLES_def Let_def declare_procs_def resolve_def IMPELLER_PROC_def comp_def)

lemma IsValid_ProcTableGLES:
  "IsValid (ProcTableGLES resolver e describe) =
     (\<forall>n \<in> set FOR_EACH_IMPELLER_PROC. resolver (''gl'' @ n) \<noteq> None)"
  by (simp add: IsValid_def ProcTableGLES_def Let_def declare_procs_def resolve_def
        IMPELLER_PROC_def IsAvailable_def list_all_iff)

lemma proc_ProcTableGLES_core:
  assumes "n \<in> set FOR_EACH_IMPELLER_PROC"
  shows "proc (ProcTableGLES resolver e describe) n =
           Some \<lparr>name = Some (''gl'' @ n), function = resolver (''gl'' @ n), error_fn = e\<rparr>"
  using assms
  by (simp add: proc_def procs_ProcTableGLES map_of_map_restrict restrict_map_def map_add_def)

lemma proc_ProcTableGLES_ext:
  assumes "n \<in> set FOR_EACH_IMPELLER_EXT_PROC"
  shows "proc (ProcTableGLES resolver e describe) n =
           Some \<lparr>name = Some (''gl'' @ n), function = resolver (''gl'' @ n), error_fn = None\<rparr>"
proof -
  from assms distinct_declared_names have "n \<notin> set FOR_EACH_IMPELLER_PROC"
    by auto
  with assms show ?thesis
    by (simp add: proc_def procs_ProcTableGLES map_of_map_restrict restrict_map_def map_add_def)
qed

section \<open>Properties\<close>

subsection \<open>Validity of the table\<close>

text \<open>
  C1. \<^verbatim>\<open>IsValid()\<close> on a constructed table is true if and only if every core slot
  holds a non-null function pointer, that is, if and only if the resolver answered
  non-null for the prefixed name of every core procedure. Every slot, core or
  extension, holds what the resolver answered for it, and two resolvers that agree on
  the core names give the same validity, whatever they answer for the extension names.
\<close>

theorem IsValid_iff_core_resolved:
  "(IsValid (ProcTableGLES resolver e describe) \<longleftrightarrow>
      (\<forall>n \<in> set FOR_EACH_IMPELLER_PROC.
         \<exists>p. proc (ProcTableGLES resolver e describe) n = Some p \<and> IsAvailable p)) \<and>
   (\<forall>n \<in> set (FOR_EACH_IMPELLER_PROC @ FOR_EACH_IMPELLER_EXT_PROC).
      \<exists>p. proc (ProcTableGLES resolver e describe) n = Some p \<and>
          function p = resolver (''gl'' @ n)) \<and>
   (IsValid (ProcTableGLES resolver e describe) \<longleftrightarrow>
      (\<forall>n \<in> set FOR_EACH_IMPELLER_PROC. resolver (''gl'' @ n) \<noteq> None)) \<and>
   (\<forall>resolver' e' describe'.
      (\<forall>n \<in> set FOR_EACH_IMPELLER_PROC. resolver' (''gl'' @ n) = resolver (''gl'' @ n)) \<longrightarrow>
      IsValid (ProcTableGLES resolver' e' describe') = IsValid (ProcTableGLES resolver e describe))"
proof (intro conjI)
  show "IsValid (ProcTableGLES resolver e describe) \<longleftrightarrow>
      (\<forall>n \<in> set FOR_EACH_IMPELLER_PROC.
         \<exists>p. proc (ProcTableGLES resolver e describe) n = Some p \<and> IsAvailable p)"
    by (simp add: IsValid_ProcTableGLES proc_ProcTableGLES_core IsAvailable_def)
  show "\<forall>n \<in> set (FOR_EACH_IMPELLER_PROC @ FOR_EACH_IMPELLER_EXT_PROC).
      \<exists>p. proc (ProcTableGLES resolver e describe) n = Some p \<and>
          function p = resolver (''gl'' @ n)"
    by (auto simp: proc_ProcTableGLES_core proc_ProcTableGLES_ext)
  show "IsValid (ProcTableGLES resolver e describe) \<longleftrightarrow>
      (\<forall>n \<in> set FOR_EACH_IMPELLER_PROC. resolver (''gl'' @ n) \<noteq> None)"
    by (rule IsValid_ProcTableGLES)
  show "\<forall>resolver' e' describe'.
      (\<forall>n \<in> set FOR_EACH_IMPELLER_PROC. resolver' (''gl'' @ n) = resolver (''gl'' @ n)) \<longrightarrow>
      IsValid (ProcTableGLES resolver' e' describe') = IsValid (ProcTableGLES resolver e describe)"
    by (simp add: IsValid_ProcTableGLES)
qed

theorem IsValid_iff_core_resolved_witness:
  "IsValid (ProcTableGLES (\<lambda>n. if n = ''glObjectLabelKHR'' then None else Some (1::nat))
      None (\<lambda>ps. \<lparr>HasDebugExtension = False\<rparr>)) \<and>
   \<not> IsValid (ProcTableGLES (\<lambda>n. if n = ''glViewport'' then None else Some (1::nat))
      None (\<lambda>ps. \<lparr>HasDebugExtension = False\<rparr>))"
proof -
  note core = IsValid_iff_core_resolved [THEN conjunct2, THEN conjunct2, THEN conjunct1]
  have "IsValid (ProcTableGLES (\<lambda>n. if n = ''glObjectLabelKHR'' then None else Some (1::nat))
      None (\<lambda>ps. \<lparr>HasDebugExtension = False\<rparr>))"
    unfolding core by (simp add: FOR_EACH_IMPELLER_PROC_def)
  moreover
  have "\<not> IsValid (ProcTableGLES (\<lambda>n. if n = ''glViewport'' then None else Some (1::nat))
      None (\<lambda>ps. \<lparr>HasDebugExtension = False\<rparr>))"
    unfolding core by (simp add: FOR_EACH_IMPELLER_PROC_def)
  ultimately show ?thesis by simp
qed

subsection \<open>The call operator and the scoped error check\<close>

text \<open>
  C2. A slot with a function pointer and a bound error-query function: the call operator
  calls the function once and then the error-query function once, in this order, on the
  driver state the function left; when the query reports \<^verbatim>\<open>GL_NO_ERROR\<close> the operator
  returns the function's result unchanged. Without an error-query binding only the
  function is called and its result is returned unchanged.
\<close>

theorem call_checks_after_call:
  "(\<forall>f e r d error d'.
      function p = Some f \<and> error_fn p = Some e \<and>
      f args (driver s) = (r, d) \<and> e d = (error, d') \<longrightarrow>
        state_of (call to_string p args s) =
          s\<lparr>driver := d', invocations := invocations s @ [Function_invoked, Error_fn_invoked]\<rparr> \<and>
        (error = GL_NO_ERROR \<longrightarrow>
           call to_string p args s =
             Returned r (s\<lparr>driver := d',
               invocations := invocations s @ [Function_invoked, Error_fn_invoked]\<rparr>))) \<and>
   (\<forall>f r d.
      function p = Some f \<and> error_fn p = None \<and> f args (driver s) = (r, d) \<longrightarrow>
        call to_string p args s =
          Returned r (s\<lparr>driver := d, invocations := invocations s @ [Function_invoked]\<rparr>))"
  by (auto simp: call_def AutoErrorCheck_exit_def FML_CHECK_def invoke_eq
           split: option.splits)

theorem call_checks_after_call_witness:
  "call (\<lambda>e. ''?'')
     \<lparr>name = Some ''glCreateShader'', function = Some (\<lambda>(a::nat) (d::nat). (a + 7, d + 1)),
      error_fn = Some (\<lambda>d. (0, d * 10))\<rparr> 5 \<lparr>driver = 2, invocations = []\<rparr> =
     Returned 12 \<lparr>driver = 30, invocations = [Function_invoked, Error_fn_invoked]\<rparr> \<and>
   call (\<lambda>e. ''?'')
     \<lparr>name = Some ''glCreateShader'', function = Some (\<lambda>(a::nat) (d::nat). (a + 7, d + 1)),
      error_fn = None\<rparr> 5 \<lparr>driver = 2, invocations = []\<rparr> =
     Returned 12 \<lparr>driver = 3, invocations = [Function_invoked]\<rparr>"
  using call_checks_after_call
      [of "\<lparr>name = Some ''glCreateShader'', function = Some (\<lambda>(a::nat) (d::nat). (a + 7, d + 1)),
            error_fn = Some (\<lambda>d. (0, d * 10))\<rparr>" 5 "\<lparr>driver = 2, invocations = []\<rparr>" "\<lambda>e. ''?''"]
    call_checks_after_call
      [of "\<lparr>name = Some ''glCreateShader'', function = Some (\<lambda>(a::nat) (d::nat). (a + 7, d + 1)),
            error_fn = None\<rparr>" 5 "\<lparr>driver = 2, invocations = []\<rparr>" "\<lambda>e. ''?''"]
  by (simp add: GL_NO_ERROR_def)

text \<open>
  C3. Scope exit of \<^verbatim>\<open>AutoErrorCheck\<close>. With a null error-query pointer nothing happens: no
  query, no termination, the state is as before. With a non-null pointer the function is
  called once; when it reports \<^verbatim>\<open>GL_NO_ERROR\<close> the scope is left normally, and when it
  reports any other value the process is terminated with a fatal diagnostic that
  contains the translated error string, the decimal digits of the code, and, at its
  end, the name of the guarded call.
\<close>

theorem AutoErrorCheck_exit_spec:
  "(AutoErrorCheck.error_fn self = None \<longrightarrow>
      AutoErrorCheck_exit to_string self s = Returned () s) \<and>
   (\<forall>f error d. AutoErrorCheck.error_fn self = Some f \<and> f (driver s) = (error, d) \<longrightarrow>
      state_of (AutoErrorCheck_exit to_string self s) =
        s\<lparr>driver := d, invocations := invocations s @ [Error_fn_invoked]\<rparr> \<and>
      (error = GL_NO_ERROR \<longrightarrow>
         AutoErrorCheck_exit to_string self s =
           Returned () (s\<lparr>driver := d, invocations := invocations s @ [Error_fn_invoked]\<rparr>)) \<and>
      (error \<noteq> GL_NO_ERROR \<longrightarrow>
         (\<forall>n. AutoErrorCheck.name self = Some n \<longrightarrow>
            (\<exists>m. AutoErrorCheck_exit to_string self s =
                   Fatal m (s\<lparr>driver := d, invocations := invocations s @ [Error_fn_invoked]\<rparr>) \<and>
                 sublist (to_string error) m \<and>
                 sublist (decimal (unat error)) m \<and>
                 suffix n m))))"
  using diagnostic_contains
  by (auto simp: AutoErrorCheck_exit_def FML_CHECK_def invoke_eq split: option.splits)

theorem AutoErrorCheck_exit_spec_witness:
  "AutoErrorCheck_exit (\<lambda>e. ''GL_INVALID_OPERATION'')
     \<lparr>AutoErrorCheck.error_fn = None, name = Some ''glClear''\<rparr>
     \<lparr>driver = (0::nat), invocations = []\<rparr> =
     Returned () \<lparr>driver = 0, invocations = []\<rparr> \<and>
   AutoErrorCheck_exit (\<lambda>e. ''GL_INVALID_OPERATION'')
     \<lparr>AutoErrorCheck.error_fn = Some (\<lambda>d::nat. (0, d + 1)), name = Some ''glClear''\<rparr>
     \<lparr>driver = 0, invocations = []\<rparr> =
     Returned () \<lparr>driver = 1, invocations = [Error_fn_invoked]\<rparr> \<and>
   (\<exists>m. AutoErrorCheck_exit (\<lambda>e. ''GL_INVALID_OPERATION'')
          \<lparr>AutoErrorCheck.error_fn = Some (\<lambda>d::nat. (0x502, d + 1)), name = Some ''glClear''\<rparr>
          \<lparr>driver = 0, invocations = []\<rparr> =
        Fatal m \<lparr>driver = 1, invocations = [Error_fn_invoked]\<rparr> \<and>
      sublist ''GL_INVALID_OPERATION'' m \<and> sublist ''1282'' m \<and> suffix ''glClear'' m)"
proof -
  have d: "decimal 1282 = ''1282''"
    by code_simp
  show ?thesis
    using
      AutoErrorCheck_exit_spec
        [of "\<lparr>AutoErrorCheck.error_fn = None, name = Some ''glClear''\<rparr>"
            "\<lambda>e. ''GL_INVALID_OPERATION''" "\<lparr>driver = (0::nat), invocations = []\<rparr>"]
      AutoErrorCheck_exit_spec
        [of "\<lparr>AutoErrorCheck.error_fn = Some (\<lambda>d::nat. (0, d + 1)), name = Some ''glClear''\<rparr>"
            "\<lambda>e. ''GL_INVALID_OPERATION''" "\<lparr>driver = 0, invocations = []\<rparr>"]
      AutoErrorCheck_exit_spec
        [of "\<lparr>AutoErrorCheck.error_fn = Some (\<lambda>d::nat. (0x502, d + 1)), name = Some ''glClear''\<rparr>"
            "\<lambda>e. ''GL_INVALID_OPERATION''" "\<lparr>driver = 0, invocations = []\<rparr>"]
    by (simp add: GL_NO_ERROR_def d)
qed

subsection \<open>Operations that degrade\<close>

text \<open>
  C4. \<^verbatim>\<open>SetDebugLabel\<close> when labeling is unavailable, that is, the labeling slot is
  unresolved or the description does not report the capability: for every resource
  type, handle and label the call returns normally and leaves the process state as it
  was, so no driver function is called, nothing is changed and no fatal diagnostic is
  produced.
\<close>

theorem SetDebugLabel_unavailable_is_no_op:
  "(\<forall>p. proc table ''ObjectLabelKHR'' = Some p \<longrightarrow> \<not> IsAvailable p) \<or>
   (\<forall>d. description table = Some d \<longrightarrow> \<not> HasDebugExtension d) \<Longrightarrow>
   SetDebugLabel to_string identifier table type handle label s = Returned () s"
  by (auto simp: SetDebugLabel_def split: option.splits)

theorem SetDebugLabel_unavailable_is_no_op_witness:
  "SetDebugLabel (\<lambda>e. ''?'') (\<lambda>t. 0)
     (ProcTableGLES (\<lambda>n. if n = ''glObjectLabelKHR'' then None
                          else Some (\<lambda>args (d::nat). (GL_void, d + 1)))
        (Some (\<lambda>d. (0x502, d))) (\<lambda>ps. \<lparr>HasDebugExtension = True\<rparr>))
     kTexture 7 ''atlas'' \<lparr>driver = 0, invocations = []\<rparr> =
     Returned () \<lparr>driver = 0, invocations = []\<rparr> \<and>
   SetDebugLabel (\<lambda>e. ''?'') (\<lambda>t. 0)
     (ProcTableGLES (\<lambda>n. Some (\<lambda>args (d::nat). (GL_void, d + 1)))
        (Some (\<lambda>d. (0x502, d))) (\<lambda>ps. \<lparr>HasDebugExtension = False\<rparr>))
     kShader 7 ''atlas'' \<lparr>driver = 0, invocations = []\<rparr> =
     Returned () \<lparr>driver = 0, invocations = []\<rparr>"
proof (intro conjI)
  have l: "''ObjectLabelKHR'' \<in> set FOR_EACH_IMPELLER_EXT_PROC"
    by (simp add: FOR_EACH_IMPELLER_EXT_PROC_def)
  show "SetDebugLabel (\<lambda>e. ''?'') (\<lambda>t. 0)
     (ProcTableGLES (\<lambda>n. if n = ''glObjectLabelKHR'' then None
                          else Some (\<lambda>args (d::nat). (GL_void, d + 1)))
        (Some (\<lambda>d. (0x502, d))) (\<lambda>ps. \<lparr>HasDebugExtension = True\<rparr>))
     kTexture 7 ''atlas'' \<lparr>driver = 0, invocations = []\<rparr> =
     Returned () \<lparr>driver = 0, invocations = []\<rparr>"
    by (rule SetDebugLabel_unavailable_is_no_op)
       (simp add: proc_ProcTableGLES_ext [OF l] IsAvailable_def)
  show "SetDebugLabel (\<lambda>e. ''?'') (\<lambda>t. 0)
     (ProcTableGLES (\<lambda>n. Some (\<lambda>args (d::nat). (GL_void, d + 1)))
        (Some (\<lambda>d. (0x502, d))) (\<lambda>ps. \<lparr>HasDebugExtension = False\<rparr>))
     kShader 7 ''atlas'' \<lparr>driver = 0, invocations = []\<rparr> =
     Returned () \<lparr>driver = 0, invocations = []\<rparr>"
    by (rule SetDebugLabel_unavailable_is_no_op)
       (simp add: ProcTableGLES_def Let_def)
qed




subsection \<open>Slots\<close>

text \<open>
  C6. After \<^verbatim>\<open>Reset\<close>, whatever the slot held, its name, function pointer and
  error-query binding are null, and \<^verbatim>\<open>IsAvailable\<close> is false.
\<close>

theorem Reset_clears_slot:
  "name (Reset p) = None \<and> function (Reset p) = None \<and> error_fn (Reset p) = None \<and>
   IsAvailable (Reset p) = False"
  by (simp add: Reset_def IsAvailable_def)

text \<open>
  C8. Every declared slot, core and extension alike, is created under its member name
  with the name \<^verbatim>\<open>"gl"\<close> followed by the declared name, a null function pointer and a
  null error-query binding. The members are the declared names, in the order of
  declaration.
\<close>

theorem declared_slots_are_named_and_null:
  "map fst (procs (declared :: ('f, 'd) ProcTableGLES)) =
     FOR_EACH_IMPELLER_PROC @ FOR_EACH_IMPELLER_EXT_PROC \<and>
   (\<forall>n \<in> set (FOR_EACH_IMPELLER_PROC @ FOR_EACH_IMPELLER_EXT_PROC).
      \<exists>p. proc (declared :: ('f, 'd) ProcTableGLES) n = Some p \<and>
          name p = Some (''gl'' @ n) \<and> function p = None \<and> error_fn p = None)"
proof (intro conjI ballI)
  show "map fst (procs (declared :: ('f, 'd) ProcTableGLES)) =
     FOR_EACH_IMPELLER_PROC @ FOR_EACH_IMPELLER_EXT_PROC"
    by (simp add: declared_def declare_procs_def comp_def)
next
  fix n assume "n \<in> set (FOR_EACH_IMPELLER_PROC @ FOR_EACH_IMPELLER_EXT_PROC)"
  then have "proc (declared :: ('f, 'd) ProcTableGLES) n = Some (IMPELLER_PROC n)"
    by (rule proc_declared)
  then show "\<exists>p. proc (declared :: ('f, 'd) ProcTableGLES) n = Some p \<and>
          name p = Some (''gl'' @ n) \<and> function p = None \<and> error_fn p = None"
    by (simp add: IMPELLER_PROC_def)
qed

theorem declared_slots_are_named_and_null_witness:
  "''ObjectLabelKHR'' \<in> set (FOR_EACH_IMPELLER_PROC @ FOR_EACH_IMPELLER_EXT_PROC) \<and>
   (\<exists>p. proc (declared :: (nat, unit) ProcTableGLES) ''ObjectLabelKHR'' = Some p \<and>
        name p = Some ''glObjectLabelKHR'' \<and> function p = None \<and> error_fn p = None)"
proof -
  have m: "''ObjectLabelKHR'' \<in> set (FOR_EACH_IMPELLER_PROC @ FOR_EACH_IMPELLER_EXT_PROC)"
    by (simp add: FOR_EACH_IMPELLER_EXT_PROC_def)
  from declared_slots_are_named_and_null [where 'f = nat and 'd = unit] m
  show ?thesis by fastforce
qed

text \<open>
  C10. The call operator has no availability guard of its own. On a slot whose function
  pointer is null it calls the null pointer, which is undefined, before anything else
  is called. On an available slot the function is called first, whatever follows, and
  the null call does not occur: the undefined call is excluded exactly by
  \<^verbatim>\<open>IsAvailable()\<close>.
\<close>

theorem call_has_no_availability_guard:
  "(\<not> IsAvailable p \<longrightarrow> call to_string p args s = Undefined Null_function_called s) \<and>
   (IsAvailable p \<longrightarrow>
      (\<forall>s'. call to_string p args s \<noteq> Undefined Null_function_called s') \<and>
      prefix (invocations s @ [Function_invoked])
        (invocations (state_of (call to_string p args s))))"
  by (auto simp: call_def IsAvailable_def AutoErrorCheck_exit_def FML_CHECK_def invoke_def
           split: option.splits prod.splits)

theorem call_has_no_availability_guard_witness:
  "call (\<lambda>e. ''?'')
     \<lparr>name = Some ''glObjectLabelKHR'', function = (None :: (nat \<Rightarrow> nat \<Rightarrow> nat \<times> nat) option),
      error_fn = Some (\<lambda>d. (0, d))\<rparr> 5 \<lparr>driver = 2, invocations = []\<rparr> =
     Undefined Null_function_called \<lparr>driver = 2, invocations = []\<rparr> \<and>
   (\<forall>s'. call (\<lambda>e. ''?'')
     \<lparr>name = Some ''glClear'', function = Some (\<lambda>(a::nat) (d::nat). (a, d + 1)),
      error_fn = Some (\<lambda>d. (0x502, d))\<rparr> 5 \<lparr>driver = 2, invocations = []\<rparr> \<noteq>
     Undefined Null_function_called s') \<and>
   prefix [Function_invoked]
     (invocations (state_of (call (\<lambda>e. ''?'')
       \<lparr>name = Some ''glClear'', function = Some (\<lambda>(a::nat) (d::nat). (a, d + 1)),
        error_fn = Some (\<lambda>d. (0x502, d))\<rparr> 5 \<lparr>driver = 2, invocations = []\<rparr>)))"
  using call_has_no_availability_guard
      [of "\<lparr>name = Some ''glObjectLabelKHR'', function = (None :: (nat \<Rightarrow> nat \<Rightarrow> nat \<times> nat) option),
            error_fn = Some (\<lambda>d. (0, d))\<rparr>" "\<lambda>e. ''?''" 5 "\<lparr>driver = 2, invocations = []\<rparr>"]
    call_has_no_availability_guard
      [of "\<lparr>name = Some ''glClear'', function = Some (\<lambda>(a::nat) (d::nat). (a, d + 1)),
            error_fn = Some (\<lambda>d. (0x502, d))\<rparr>" "\<lambda>e. ''?''" 5 "\<lparr>driver = 2, invocations = []\<rparr>"]
  by (simp add: IsAvailable_def)

end
